theory Spec2Isabelle
  imports Complex_Main "HOL-Library.Sublist"
begin

section \<open>Python values and exceptions\<close>

text \<open>
  The exceptions the modelled code can raise or catch. Every fallible operation returns
  \<open>exn + 'a\<close>, with \<open>Inl\<close> for the raised exception.
\<close>

datatype exn =
    ZeroDivisionError
  | AttributeError
  | TypeError
  | ValueError
  | UnicodeDecodeError
  | OverflowError
  | IntegrityError
  | DoesNotExist
  | MultipleObjectsReturned

text \<open>Python's \<open>a / b\<close> on two ints: true division, raising on a zero divisor.\<close>

definition py_truediv :: "int \<Rightarrow> int \<Rightarrow> exn + real" where
  "py_truediv a b = (if b = 0 then Inl ZeroDivisionError else Inr (real_of_int a / real_of_int b))"

section \<open>gestures/models.py: SystemPerformance\<close>

type_synonym uuid = string
type_synonym datetime = int

record SystemPerformance =
  perf_id :: uuid
  perf_session :: uuid
  fps :: real
  latency_ms :: real
  cpu_usage :: "real option"
  memory_usage_mb :: "real option"
  false_positives :: int
  false_negatives :: int
  true_positives :: int
  recorded_at :: datetime

definition accuracy :: "SystemPerformance \<Rightarrow> exn + real" where
  "accuracy self =
     (if true_positives self + false_positives self + false_negatives self = 0
      then Inr 0
      else py_truediv (true_positives self)
             (true_positives self + false_positives self + false_negatives self))"

section \<open>config/settings.py: serverless detection\<close>

type_synonym environ = "string \<rightharpoonup> string"

text \<open>\<open>m.get(key, default)\<close> on a mapping from str to str (\<open>os.environ\<close>, \<open>request.META\<close>).\<close>

definition get_or :: "(string \<rightharpoonup> string) \<Rightarrow> string \<Rightarrow> string \<Rightarrow> string" where
  "get_or m key dflt = (case m key of None \<Rightarrow> dflt | Some v \<Rightarrow> v)"

text \<open>
  \<open>str.lower()\<close>: the letters \<open>A\<close> to \<open>Z\<close> (codes 65 to 90) move to \<open>a\<close> to \<open>z\<close>;
  every other character of the byte range stays.
\<close>

definition lower_char :: "char \<Rightarrow> char" where
  "lower_char c =
     (if 65 \<le> (of_char c :: nat) \<and> (of_char c :: nat) \<le> 90
      then char_of ((of_char c :: nat) + 32) else c)"

definition lower :: "string \<Rightarrow> string" where
  "lower s = map lower_char s"

text \<open>
  The write probe touches the file system with four calls: \<open>open(path, 'w')\<close>,
  \<open>f.write('test')\<close>, the close at the end of the \<open>with\<close> block, and
  \<open>os.remove(path)\<close>. The file system is given by which of these calls raise
  \<open>OSError\<close> (\<open>PermissionError\<close> and \<open>IOError\<close> are \<open>OSError\<close>s).
\<close>

datatype fs_call = OpenForWrite | WriteTest | CloseFile | RemoveFile

type_synonym filesystem = "fs_call \<Rightarrow> bool"

text \<open>
  The \<open>try\<close> block of the probe: the calls made, in order, and the value returned.
  A raise inside the \<open>with\<close> block still closes the file before the handler runs.
\<close>

definition write_probe :: "filesystem \<Rightarrow> bool \<times> fs_call list" where
  "write_probe fs =
     (if fs OpenForWrite then (True, [OpenForWrite])
      else if fs WriteTest then (True, [OpenForWrite, WriteTest, CloseFile])
      else if fs CloseFile then (True, [OpenForWrite, WriteTest, CloseFile])
      else if fs RemoveFile then (True, [OpenForWrite, WriteTest, CloseFile, RemoveFile])
      else (False, [OpenForWrite, WriteTest, CloseFile, RemoveFile]))"

text \<open>
  \<open>is_serverless_environment()\<close>, with the process environment, \<open>str(BASE_DIR)\<close> and
  the file system as arguments. The result is the returned flag together with the file
  system calls that were made.
\<close>

definition is_serverless_environment ::
    "environ \<Rightarrow> string \<Rightarrow> filesystem \<Rightarrow> bool \<times> fs_call list" where
  "is_serverless_environment environ base_dir_str fs =
     (if lower (get_or environ ''VERCEL'' '''') = ''1'' then (True, [])
      else if environ ''AWS_LAMBDA_FUNCTION_NAME'' \<noteq> None then (True, [])
      else if sublist ''/var/task'' base_dir_str \<or> sublist ''/var/runtime'' base_dir_str
        then (True, [])
      else write_probe fs)"

section \<open>Request bodies as Python values\<close>

text \<open>
  The value \<open>json.loads\<close> returns: \<open>None\<close>, a bool, an int, a float (a finite double,
  which is a real number here; rounding, infinities and NaN are outside the model), a
  str (text, given by the bytes of its UTF-8 encoding), a list or a dict. A dict is
  given by its items; it has one item for a key, which \<open>map_of\<close> reads.
\<close>

datatype json =
    JNull
  | JBool bool
  | JInt int
  | JFloat real
  | JStr string
  | JArr "json list"
  | JObj "(string \<times> json) list"

text \<open>
  What \<open>json.loads(request.body)\<close> does with the bytes of a body: it returns a value,
  raises \<open>JSONDecodeError\<close> on text that is not JSON, or raises \<open>UnicodeDecodeError\<close>
  on bytes that are not text in the detected encoding (a body holding the byte 0xFF).
  Both exceptions are \<open>ValueError\<close>s; neither is a subclass of the other.
\<close>

datatype loads_result = Parsed json | JSONDecodeError | NotText

text \<open>\<open>d.get(key, default)\<close> on a dict; \<open>d.get(key)\<close> is \<open>dict_get d key JNull\<close>.\<close>

definition dict_get :: "(string \<times> json) list \<Rightarrow> string \<Rightarrow> json \<Rightarrow> json" where
  "dict_get d key dflt = (case map_of d key of None \<Rightarrow> dflt | Some v \<Rightarrow> v)"

text \<open>
  Conversions of Python that the model takes as given: \<open>str(v)\<close> of a value that is
  neither a str nor \<open>None\<close>, and \<open>float(s)\<close> and \<open>int(s)\<close> of a str, where \<open>None\<close>
  stands for the \<open>ValueError\<close> of a str that is not a numeral.
\<close>

record builtins =
  py_str :: "json \<Rightarrow> string"
  py_float :: "string \<Rightarrow> real option"
  py_int :: "string \<Rightarrow> int option"

text \<open>\<open>int(r)\<close> of a float: truncation towards zero.\<close>

definition py_trunc :: "real \<Rightarrow> int" where
  "py_trunc r = (if 0 \<le> r then \<lfloor>r\<rfloor> else \<lceil>r\<rceil>)"

text \<open>
  \<open>float(i)\<close> of an int raises \<open>OverflowError\<close> when the int is too large for a
  double: the largest double is \<open>2^1024 - 2^971\<close>, and an int rounds to it as long as
  its magnitude is below \<open>2^1024 - 2^970\<close>. The result here is the int itself, which is
  the double for every int that a double holds exactly.
\<close>

definition fits_double :: "int \<Rightarrow> bool" where
  "fits_double i \<longleftrightarrow> \<bar>i\<bar> < 2 ^ 1024 - 2 ^ 970"

definition py_float_of_int :: "int \<Rightarrow> exn + real" where
  "py_float_of_int i = (if fits_double i then Inr (real_of_int i) else Inl OverflowError)"

section \<open>gestures/models.py: the tables\<close>

type_synonym user = nat

record GestureLog =
  log_id :: uuid
  log_user :: "user option"
  log_session_id :: string
  gesture_type :: string
  confidence :: real
  frame_count :: int
  hand_x :: "real option"
  hand_y :: "real option"
  hand_z :: "real option"
  detection_time_ms :: real
  frame_processing_time_ms :: real
  browser :: string
  user_agent :: string
  screen_resolution :: string
  created_at :: datetime

record PresentationSession =
  sess_id :: uuid
  sess_user :: "user option"
  session_id :: string
  current_slide :: int
  total_slides :: int
  is_fullscreen :: bool
  is_presenting :: bool
  avg_latency_ms :: real
  gesture_count :: int
  started_at :: datetime
  last_activity :: datetime
  ended_at :: "datetime option"

text \<open>
  The relational store: the rows of the two tables, in insertion order. The backend is
  the default of settings.py, SQLite: an integer column holds a signed 64-bit value and
  an int outside that range is refused with \<open>OverflowError\<close> when it is bound to a
  statement, and \<open>max_length\<close> is not enforced. A float column holds a double, which is
  a real number here.
\<close>

definition sqlite_integer :: "int \<Rightarrow> bool" where
  "sqlite_integer i \<longleftrightarrow> - (2 ^ 63) \<le> i \<and> i < 2 ^ 63"

definition bind_integer :: "int option \<Rightarrow> exn + int option" where
  "bind_integer x =
     (case x of
        None \<Rightarrow> Inr None
      | Some i \<Rightarrow> if sqlite_integer i then Inr (Some i) else Inl OverflowError)"

record store =
  logs :: "GestureLog list"
  sessions :: "PresentationSession list"

text \<open>
  The constraints the schema declares: primary keys are unique, and
  \<open>PresentationSession.session_id\<close> is \<open>unique=True\<close>.
\<close>

definition store_ok :: "store \<Rightarrow> bool" where
  "store_ok st \<longleftrightarrow>
     distinct (map log_id (logs st)) \<and> distinct (map sess_id (sessions st))
     \<and> distinct (map session_id (sessions st))"

subsection \<open>Values on their way into a column\<close>

text \<open>
  What the field classes of models.py make of a Python value handed to a query
  (\<open>get_prep_value\<close>): a \<open>CharField\<close> or \<open>TextField\<close> keeps a str and \<open>None\<close> and
  takes \<open>str(v)\<close> of anything else; a \<open>FloatField\<close> takes \<open>float(v)\<close> and an
  \<open>IntegerField\<close> \<open>int(v)\<close>, both keeping \<open>None\<close> and letting the \<open>TypeError\<close>,
  \<open>ValueError\<close> or \<open>OverflowError\<close> of the conversion through.
\<close>

definition prep_char :: "builtins \<Rightarrow> json \<Rightarrow> string option" where
  "prep_char py v =
     (case v of JNull \<Rightarrow> None | JStr s \<Rightarrow> Some s | _ \<Rightarrow> Some (py_str py v))"

definition prep_float :: "builtins \<Rightarrow> json \<Rightarrow> exn + real option" where
  "prep_float py v =
     (case v of
        JNull \<Rightarrow> Inr None
      | JBool b \<Rightarrow> Inr (Some (if b then 1 else 0))
      | JInt i \<Rightarrow> (case py_float_of_int i of Inl e \<Rightarrow> Inl e | Inr r \<Rightarrow> Inr (Some r))
      | JFloat r \<Rightarrow> Inr (Some r)
      | JStr s \<Rightarrow> (case py_float py s of None \<Rightarrow> Inl ValueError | Some r \<Rightarrow> Inr (Some r))
      | JArr xs \<Rightarrow> Inl TypeError
      | JObj d \<Rightarrow> Inl TypeError)"

definition prep_int :: "builtins \<Rightarrow> json \<Rightarrow> exn + int option" where
  "prep_int py v =
     (case v of
        JNull \<Rightarrow> Inr None
      | JBool b \<Rightarrow> Inr (Some (if b then 1 else 0))
      | JInt i \<Rightarrow> Inr (Some i)
      | JFloat r \<Rightarrow> Inr (Some (py_trunc r))
      | JStr s \<Rightarrow> (case py_int py s of None \<Rightarrow> Inl ValueError | Some i \<Rightarrow> Inr (Some i))
      | JArr xs \<Rightarrow> Inl TypeError
      | JObj d \<Rightarrow> Inl TypeError)"

text \<open>Sequencing of fallible steps: the first exception ends the computation.\<close>

definition bind_exn :: "exn + 'a \<Rightarrow> ('a \<Rightarrow> exn + 'b) \<Rightarrow> exn + 'b" where
  "bind_exn m f = (case m of Inl e \<Rightarrow> Inl e | Inr x \<Rightarrow> f x)"

text \<open>A column without \<open>null=True\<close> refuses \<open>NULL\<close>: the insert raises \<open>IntegrityError\<close>.\<close>

definition not_null :: "'a option \<Rightarrow> ('a \<Rightarrow> exn + 'b) \<Rightarrow> exn + 'b" where
  "not_null x f = (case x of None \<Rightarrow> Inl IntegrityError | Some v \<Rightarrow> f v)"

subsection \<open>GestureLog.objects.create\<close>

text \<open>The keyword arguments of the call in \<open>log_gesture\<close>, as Python values.\<close>

record GestureLog_kwargs =
  kw_user :: "user option"
  kw_session_id :: json
  kw_gesture_type :: json
  kw_confidence :: json
  kw_frame_count :: json
  kw_hand_x :: json
  kw_hand_y :: json
  kw_hand_z :: json
  kw_detection_time_ms :: json
  kw_frame_processing_time_ms :: json
  kw_browser :: json
  kw_user_agent :: json
  kw_screen_resolution :: json

text \<open>
  \<open>GestureLog.objects.create(**kw)\<close>: the values are prepared column by column, in the
  order the model declares them, so the first value a conversion refuses decides the
  exception; then the values are bound to the insert, which refuses an int outside the
  integer column's range; then the row is inserted, which fails on a \<open>NULL\<close> in a
  column that is not nullable and on a primary key that is already there. \<open>new_id\<close> is
  the value \<open>uuid.uuid4()\<close> gave for the \<open>id\<close> default and \<open>now\<close> the clock reading
  that \<open>auto_now_add\<close> stores. On success the store has the new row at the end.
\<close>

definition GestureLog_create ::
    "builtins \<Rightarrow> uuid \<Rightarrow> datetime \<Rightarrow> store \<Rightarrow> GestureLog_kwargs \<Rightarrow> exn + store \<times> GestureLog" where
  "GestureLog_create py new_id now st kw =
     bind_exn (prep_float py (kw_confidence kw)) (\<lambda>p_confidence.
     bind_exn (prep_int py (kw_frame_count kw)) (\<lambda>p_frame_count.
     bind_exn (prep_float py (kw_hand_x kw)) (\<lambda>p_hand_x.
     bind_exn (prep_float py (kw_hand_y kw)) (\<lambda>p_hand_y.
     bind_exn (prep_float py (kw_hand_z kw)) (\<lambda>p_hand_z.
     bind_exn (prep_float py (kw_detection_time_ms kw)) (\<lambda>p_detection.
     bind_exn (prep_float py (kw_frame_processing_time_ms kw)) (\<lambda>p_processing.
     bind_exn (bind_integer p_frame_count) (\<lambda>b_frame_count.
     not_null (prep_char py (kw_session_id kw)) (\<lambda>v_session_id.
     not_null (prep_char py (kw_gesture_type kw)) (\<lambda>v_gesture_type.
     not_null p_confidence (\<lambda>v_confidence.
     not_null b_frame_count (\<lambda>v_frame_count.
     not_null p_detection (\<lambda>v_detection.
     not_null p_processing (\<lambda>v_processing.
     not_null (prep_char py (kw_browser kw)) (\<lambda>v_browser.
     not_null (prep_char py (kw_user_agent kw)) (\<lambda>v_user_agent.
     not_null (prep_char py (kw_screen_resolution kw)) (\<lambda>v_screen_resolution.
       if new_id \<in> set (map log_id (logs st)) then Inl IntegrityError
       else
         let new_log = \<lparr>log_id = new_id, log_user = kw_user kw,
                    log_session_id = v_session_id, gesture_type = v_gesture_type,
                    confidence = v_confidence, frame_count = v_frame_count,
                    hand_x = p_hand_x, hand_y = p_hand_y, hand_z = p_hand_z,
                    detection_time_ms = v_detection,
                    frame_processing_time_ms = v_processing,
                    browser = v_browser, user_agent = v_user_agent,
                    screen_resolution = v_screen_resolution, created_at = now\<rparr>
         in Inr (st\<lparr>logs := logs st @ [new_log]\<rparr>, new_log))))))))))))))))))"

subsection \<open>PresentationSession.objects.get and save\<close>

text \<open>
  \<open>PresentationSession.objects.get(session_id=v)\<close>. A lookup for \<open>None\<close> is the test
  \<open>IS NULL\<close>, which no row passes, the column not being nullable.
\<close>

definition PresentationSession_by_session_id :: "store \<Rightarrow> string \<Rightarrow> exn + PresentationSession" where
  "PresentationSession_by_session_id st key =
     (case filter (\<lambda>s. session_id s = key) (sessions st) of
        [] \<Rightarrow> Inl DoesNotExist
      | [s] \<Rightarrow> Inr s
      | s # s' # others \<Rightarrow> Inl MultipleObjectsReturned)"

definition PresentationSession_get :: "builtins \<Rightarrow> store \<Rightarrow> json \<Rightarrow> exn + PresentationSession" where
  "PresentationSession_get py st v =
     (case prep_char py v of
        None \<Rightarrow> Inl DoesNotExist
      | Some key \<Rightarrow> PresentationSession_by_session_id st key)"

text \<open>
  \<open>session.save()\<close> on a row that was read from the table, after the handler has
  changed its \<open>gesture_count\<close>: the update refuses a count outside the integer column's
  range (the other columns are written back as they were read); otherwise the row with
  that primary key takes the instance's values, and \<open>auto_now\<close> puts the clock reading
  into \<open>last_activity\<close> whatever the instance carried.
\<close>

definition PresentationSession_save ::
    "datetime \<Rightarrow> store \<Rightarrow> PresentationSession \<Rightarrow> exn + store" where
  "PresentationSession_save now st session =
     (if \<not> sqlite_integer (gesture_count session) then Inl OverflowError
      else Inr (st\<lparr>sessions :=
                  map (\<lambda>row. if sess_id row = sess_id session
                              then session\<lparr>last_activity := now\<rparr> else row)
                    (sessions st)\<rparr>))"

section \<open>gestures/views.py: log_gesture\<close>

record request =
  body :: loads_result
  user :: "user option"
  META :: "string \<rightharpoonup> string"
  GET :: "(string \<times> string) list"

datatype response =
    Success uuid
  | InvalidJSON
  | ServerError exn

text \<open>
  \<open>Success i\<close> is \<open>{'status': 'success', 'log_id': i}\<close>, \<open>InvalidJSON\<close> is
  \<open>{'status': 'error', 'message': 'Invalid JSON'}\<close>, and \<open>ServerError e\<close> is
  \<open>{'status': 'error', 'message': str(e)}\<close>.
\<close>

fun status_code :: "response \<Rightarrow> nat" where
  "status_code (Success i) = 200"
| "status_code InvalidJSON = 400"
| "status_code (ServerError e) = 500"

text \<open>
  The keyword arguments the handler passes to \<open>GestureLog.objects.create\<close>, read from
  the dict \<open>data\<close> with the defaults of the call, and the handler itself. A value that
  is not a dict has no \<open>get\<close>: the first \<open>data.get\<close> raises \<open>AttributeError\<close>. Every
  statement commits on its own, so a row that was created stays when a later statement
  raises. The inner \<open>try\<close> catches \<open>DoesNotExist\<close> only; any other exception of the
  lookup or of \<open>save\<close> reaches the generic handler.
\<close>

definition create_kwargs :: "request \<Rightarrow> (string \<times> json) list \<Rightarrow> GestureLog_kwargs" where
  "create_kwargs request d =
     \<lparr>kw_user = user request,
      kw_session_id = dict_get d ''session_id'' (JStr ''anonymous''),
      kw_gesture_type = dict_get d ''gesture_type'' (JStr ''unknown''),
      kw_confidence = dict_get d ''confidence'' (JFloat 0),
      kw_frame_count = dict_get d ''frame_count'' (JInt 1),
      kw_hand_x = dict_get d ''hand_x'' JNull,
      kw_hand_y = dict_get d ''hand_y'' JNull,
      kw_hand_z = dict_get d ''hand_z'' JNull,
      kw_detection_time_ms = dict_get d ''detection_time_ms'' (JFloat 0),
      kw_frame_processing_time_ms = dict_get d ''frame_processing_time_ms'' (JFloat 0),
      kw_browser = dict_get d ''browser'' (JStr ''''),
      kw_user_agent = JStr (get_or (META request) ''HTTP_USER_AGENT'' ''''),
      kw_screen_resolution = dict_get d ''screen_resolution'' (JStr '''')\<rparr>"

definition log_gesture ::
    "builtins \<Rightarrow> uuid \<Rightarrow> datetime \<Rightarrow> store \<Rightarrow> request \<Rightarrow> store \<times> response" where
  "log_gesture py new_id now st request =
     (case body request of
        JSONDecodeError \<Rightarrow> (st, InvalidJSON)
      | NotText \<Rightarrow> (st, ServerError UnicodeDecodeError)
      | Parsed data \<Rightarrow>
          (case data of
             JObj d \<Rightarrow>
               (case GestureLog_create py new_id now st (create_kwargs request d) of
                  Inl e \<Rightarrow> (st, ServerError e)
                | Inr (st1, new_log) \<Rightarrow>
                    (case PresentationSession_get py st1 (dict_get d ''session_id'' JNull) of
                       Inr session \<Rightarrow>
                         (case PresentationSession_save now st1
                                 (session\<lparr>gesture_count := gesture_count session + 1,
                                          last_activity := now\<rparr>) of
                            Inl e \<Rightarrow> (st1, ServerError e)
                          | Inr st2 \<Rightarrow> (st2, Success (log_id new_log)))
                     | Inl e \<Rightarrow>
                         if e = DoesNotExist then (st1, Success (log_id new_log))
                         else (st1, ServerError e)))
           | _ \<Rightarrow> (st, ServerError AttributeError)))"

section \<open>gestures/views.py: presentation_view\<close>

text \<open>\<open>QueryDict.get(key)\<close>: the last value given for the key, \<open>None\<close> without one.\<close>

definition QueryDict_get :: "(string \<times> string) list \<Rightarrow> string \<Rightarrow> string option" where
  "QueryDict_get q key = map_of (rev q) key"

text \<open>
  A new \<open>PresentationSession(session_id=sid, user=u)\<close>: the other columns take the
  defaults of models.py, \<open>new_pk\<close> is the value of \<open>uuid.uuid4()\<close> for \<open>id\<close>, and
  \<open>auto_now_add\<close> and \<open>auto_now\<close> store the clock reading.
\<close>

definition new_session :: "uuid \<Rightarrow> datetime \<Rightarrow> string \<Rightarrow> user option \<Rightarrow> PresentationSession" where
  "new_session new_pk now sid u =
     \<lparr>sess_id = new_pk, sess_user = u, session_id = sid, current_slide = 0, total_slides = 0,
      is_fullscreen = False, is_presenting = False, avg_latency_ms = 0, gesture_count = 0,
      started_at = now, last_activity = now, ended_at = None\<rparr>"

text \<open>
  \<open>PresentationSession.objects.create(session_id=sid, user=u)\<close>. The insert fails on a
  primary key or a \<open>session_id\<close> that is already there.
\<close>

definition PresentationSession_create ::
    "uuid \<Rightarrow> datetime \<Rightarrow> store \<Rightarrow> string \<Rightarrow> user option \<Rightarrow> exn + store \<times> PresentationSession" where
  "PresentationSession_create new_pk now st sid u =
     (if new_pk \<in> set (map sess_id (sessions st)) \<or> sid \<in> set (map session_id (sessions st))
      then Inl IntegrityError
      else Inr (st\<lparr>sessions := sessions st @ [new_session new_pk now sid u]\<rparr>,
                new_session new_pk now sid u))"

text \<open>
  \<open>PresentationSession.objects.get_or_create(session_id=sid, defaults={'user': u})\<close>:
  the row found, or else the row created; an \<open>IntegrityError\<close> of the insert is raised
  again unless a second lookup finds the row.
\<close>

definition PresentationSession_get_or_create ::
    "uuid \<Rightarrow> datetime \<Rightarrow> store \<Rightarrow> string \<Rightarrow> user option
      \<Rightarrow> exn + store \<times> PresentationSession \<times> bool" where
  "PresentationSession_get_or_create new_pk now st sid u =
     (case PresentationSession_by_session_id st sid of
        Inr session \<Rightarrow> Inr (st, session, False)
      | Inl e \<Rightarrow>
          if e \<noteq> DoesNotExist then Inl e
          else
            (case PresentationSession_create new_pk now st sid u of
               Inr (st', session) \<Rightarrow> Inr (st', session, True)
             | Inl e' \<Rightarrow>
                 (case PresentationSession_by_session_id st sid of
                    Inr session \<Rightarrow> Inr (st, session, False)
                  | Inl e'' \<Rightarrow> if e'' = DoesNotExist then Inl e' else Inl e'')))"

text \<open>
  The page: \<open>Rendered sid auth\<close> is the template rendered with \<open>session_id\<close> and
  \<open>is_authenticated\<close>; an exception that leaves the view is the framework's error page.
\<close>

datatype page = Rendered string bool | Unhandled exn

text \<open>
  \<open>uuid_default\<close> is \<open>str(uuid.uuid4())\<close>, evaluated as the default argument of
  \<open>request.GET.get\<close> on every request.
\<close>

definition presentation_view ::
    "uuid \<Rightarrow> uuid \<Rightarrow> datetime \<Rightarrow> store \<Rightarrow> request \<Rightarrow> store \<times> page" where
  "presentation_view uuid_default new_pk now st request =
     (let sid = (case QueryDict_get (GET request) ''session_id'' of
                   None \<Rightarrow> uuid_default | Some v \<Rightarrow> v)
      in case PresentationSession_get_or_create new_pk now st sid (user request) of
           Inl e \<Rightarrow> (st, Unhandled e)
         | Inr (st', session, created) \<Rightarrow> (st', Rendered sid (user request \<noteq> None)))"

section \<open>gestures/views.py: GestureLogViewSet\<close>

text \<open>
  \<open>queryset = GestureLog.objects.all().order_by('-created_at')\<close>: all rows, newest
  first.
\<close>

definition queryset :: "store \<Rightarrow> GestureLog list" where
  "queryset st = sort_key (\<lambda>l. - created_at l) (logs st)"

text \<open>\<open>request.query_params\<close> of the REST framework is the query string of the request.\<close>

definition query_params :: "request \<Rightarrow> (string \<times> string) list" where
  "query_params request = GET request"

record stats =
  total_gestures :: nat
  gesture_types :: "string \<rightharpoonup> nat"
  avg_confidence :: real
  avg_latency :: real

text \<open>
  \<open>Response stats\<close> is the answer with status 200, \<open>BadRequest msg\<close> the answer
  \<open>{'error': msg}\<close> with status 400, and \<open>NotAuthenticated\<close> the framework's refusal of
  a caller that \<open>permission_classes = [IsAuthenticated]\<close> does not admit, with status 403.
\<close>

datatype stats_response = Response stats | BadRequest string | NotAuthenticated

fun stats_status :: "stats_response \<Rightarrow> nat" where
  "stats_status (Response s) = 200"
| "stats_status (BadRequest msg) = 400"
| "stats_status NotAuthenticated = 403"

text \<open>One turn of the loop: \<open>types[t] = types.get(t, 0) + 1\<close>.\<close>

definition count_type :: "(string \<rightharpoonup> nat) \<Rightarrow> GestureLog \<Rightarrow> (string \<rightharpoonup> nat)" where
  "count_type types l =
     types(gesture_type l \<mapsto> (case types (gesture_type l) of None \<Rightarrow> 0 | Some c \<Rightarrow> c) + 1)"

text \<open>
  The route of the action \<open>session_stats\<close>: the permission check of the class
  (\<open>IsAuthenticated\<close>), then the method. \<open>not session_id\<close> holds of \<open>None\<close> and of the
  empty str. The sums and quotients are those of the real numbers; the code computes them
  in doubles, with the rounding of each operation. The rate limits that settings.py
  configures for the REST framework count the requests of a caller over an hour and are
  outside the model: a request here is one that the limit lets through.
\<close>

definition session_stats :: "store \<Rightarrow> request \<Rightarrow> stats_response" where
  "session_stats st request =
     (if user request = None then NotAuthenticated
      else
        case QueryDict_get (query_params request) ''session_id'' of
          None \<Rightarrow> BadRequest ''session_id required''
        | Some sid \<Rightarrow>
            if sid = [] then BadRequest ''session_id required''
            else
              let rows = filter (\<lambda>l. log_session_id l = sid) (queryset st);
                  total = length rows
              in if total > 0
                 then Response \<lparr>total_gestures = total,
                        gesture_types = foldl count_type Map.empty rows,
                        avg_confidence = sum_list (map confidence rows) / real total,
                        avg_latency = sum_list (map detection_time_ms rows) / real total\<rparr>
                 else Response \<lparr>total_gestures = total, gesture_types = Map.empty,
                        avg_confidence = 0, avg_latency = 0\<rparr>)"

text \<open>
  The class is a \<open>ModelViewSet\<close> and urls.py registers it with the router, so the
  routes of the resource include \<open>DELETE /api/gesture-logs/<pk>/\<close>, the \<open>destroy\<close>
  action of the framework: after the permission check (\<open>IsAuthenticated\<close>) the row with
  that primary key is looked up in the queryset and deleted.
\<close>

datatype rest_response = NoContent | NotFound | Forbidden

definition GestureLogViewSet_destroy :: "store \<Rightarrow> request \<Rightarrow> uuid \<Rightarrow> store \<times> rest_response" where
  "GestureLogViewSet_destroy st request pk =
     (if user request = None then (st, Forbidden)
      else if pk \<in> set (map log_id (queryset st))
        then (st\<lparr>logs := filter (\<lambda>l. log_id l \<noteq> pk) (logs st)\<rparr>, NoContent)
      else (st, NotFound))"

section \<open>Bodies whose values have the types of their columns\<close>















section \<open>Sample data\<close>

definition sample_builtins :: builtins where
  "sample_builtins = \<lparr>py_str = (\<lambda>v. ''''), py_float = (\<lambda>s. None), py_int = (\<lambda>s. None)\<rparr>"

definition sample_session :: "string \<Rightarrow> string \<Rightarrow> int \<Rightarrow> PresentationSession" where
  "sample_session pk sid n =
     \<lparr>sess_id = pk, sess_user = None, session_id = sid, current_slide = 0, total_slides = 0,
      is_fullscreen = False, is_presenting = False, avg_latency_ms = 0, gesture_count = n,
      started_at = 10, last_activity = 20, ended_at = None\<rparr>"

definition sample_log :: "string \<Rightarrow> string \<Rightarrow> string \<Rightarrow> real \<Rightarrow> real \<Rightarrow> GestureLog" where
  "sample_log pk sid g c t =
     \<lparr>log_id = pk, log_user = None, log_session_id = sid, gesture_type = g, confidence = c,
      frame_count = 1, hand_x = None, hand_y = None, hand_z = None, detection_time_ms = t,
      frame_processing_time_ms = 0, browser = '''', user_agent = '''', screen_resolution = '''',
      created_at = 15\<rparr>"

definition sample_request :: "loads_result \<Rightarrow> (string \<times> string) list \<Rightarrow> request" where
  "sample_request b q = \<lparr>body = b, user = None, META = Map.empty, GET = q\<rparr>"

definition sample_user_request :: "loads_result \<Rightarrow> (string \<times> string) list \<Rightarrow> request" where
  "sample_user_request b q = \<lparr>body = b, user = Some 1, META = Map.empty, GET = q\<rparr>"

section \<open>Facts about the model\<close>








lemma filter_key_distinct:
  "distinct (map f xs) \<Longrightarrow> x \<in> set xs \<Longrightarrow> filter (\<lambda>y. f y = f x) xs = [x]"
proof (induction xs)
  case Nil
  then show ?case by simp
next
  case (Cons a xs)
  show ?case
  proof (cases "a = x")
    case True
    with Cons.prems have "\<forall>y\<in>set xs. f y \<noteq> f x" by (auto simp: image_iff)
    then have "filter (\<lambda>y. f y = f x) xs = []" by (simp add: filter_empty_conv)
    with True show ?thesis by simp
  next
    case False
    with Cons.prems have "x \<in> set xs" "f a \<noteq> f x" by force+
    with Cons show ?thesis by simp
  qed
qed

lemma by_session_id_found:
  "distinct (map session_id (sessions st)) \<Longrightarrow> s \<in> set (sessions st) \<Longrightarrow>
   PresentationSession_by_session_id st (session_id s) = Inr s"
  by (simp add: PresentationSession_by_session_id_def filter_key_distinct)

lemma by_session_id_missing:
  "key \<notin> set (map session_id (sessions st)) \<Longrightarrow>
   PresentationSession_by_session_id st key = Inl DoesNotExist"
proof -
  assume "key \<notin> set (map session_id (sessions st))"
  then have "filter (\<lambda>s. session_id s = key) (sessions st) = []"
    by (auto simp: filter_empty_conv)
  then show ?thesis by (simp add: PresentationSession_by_session_id_def)
qed



lemma bind_exn_Inr: "bind_exn m f = Inr y \<longleftrightarrow> (\<exists>x. m = Inr x \<and> f x = Inr y)"
  by (cases m) (simp_all add: bind_exn_def)

lemma not_null_Inr: "not_null x f = Inr y \<longleftrightarrow> (\<exists>v. x = Some v \<and> f v = Inr y)"
  by (cases x) (simp_all add: not_null_def)

lemma GestureLog_create_Inr:
  assumes "GestureLog_create py new_id now st kw = Inr (st', r)"
  shows "st' = st\<lparr>logs := logs st @ [r]\<rparr> \<and> log_id r = new_id
         \<and> prep_char py (kw_session_id kw) = Some (log_session_id r)"
  using assms unfolding GestureLog_create_def bind_exn_Inr not_null_Inr
  by (auto simp: Let_def split: if_splits)



lemma by_session_id_logs [simp]:
  "PresentationSession_by_session_id (st\<lparr>logs := x\<rparr>) key = PresentationSession_by_session_id st key"
  by (simp add: PresentationSession_by_session_id_def)


lemma log_gesture_unfold:
  "body request = Parsed (JObj d) \<Longrightarrow>
   log_gesture py new_id now st request =
     (case GestureLog_create py new_id now st (create_kwargs request d) of
        Inl e \<Rightarrow> (st, ServerError e)
      | Inr (st1, new_log) \<Rightarrow>
          (case PresentationSession_get py st1 (dict_get d ''session_id'' JNull) of
             Inr session \<Rightarrow>
               (case PresentationSession_save now st1
                       (session\<lparr>gesture_count := gesture_count session + 1,
                                last_activity := now\<rparr>) of
                  Inl e \<Rightarrow> (st1, ServerError e)
                | Inr st2 \<Rightarrow> (st2, Success (log_id new_log)))
           | Inl e \<Rightarrow>
               if e = DoesNotExist then (st1, Success (log_id new_log))
               else (st1, ServerError e)))"
  by (simp add: log_gesture_def)

lemma log_gesture_rejected:
  "body request = Parsed (JObj d) \<Longrightarrow>
   GestureLog_create py new_id now st (create_kwargs request d) = Inl e \<Longrightarrow>
   log_gesture py new_id now st request = (st, ServerError e)"
  by (simp add: log_gesture_unfold)


lemmas run_log_gesture =
  log_gesture_def GestureLog_create_def create_kwargs_def dict_get_def prep_char_def
  prep_float_def prep_int_def bind_exn_def not_null_def PresentationSession_get_def
  PresentationSession_by_session_id_def PresentationSession_save_def get_or_def Let_def
  bind_integer_def sqlite_integer_def py_float_of_int_def fits_double_def
  sample_builtins_def sample_session_def sample_request_def






lemma get_or_create_found:
  assumes "distinct (map session_id (sessions st))"
    and "sid \<in> set (map session_id (sessions st))"
  shows "PresentationSession_get_or_create new_pk now st sid u \<noteq> Inl e
       \<and> (\<forall>p. PresentationSession_get_or_create new_pk now st sid u = Inr p \<longrightarrow> fst p = st)"
proof -
  from assms(2) obtain s where "s \<in> set (sessions st)" "session_id s = sid" by auto
  with by_session_id_found [OF assms(1), of s]
  have "PresentationSession_by_session_id st sid = Inr s" by simp
  then show ?thesis by (simp add: PresentationSession_get_or_create_def)
qed

lemma get_or_create_missing:
  assumes "sid \<notin> set (map session_id (sessions st))"
  shows "PresentationSession_get_or_create new_pk now st sid u =
           (if new_pk \<in> set (map sess_id (sessions st)) then Inl IntegrityError
            else Inr (st\<lparr>sessions := sessions st @ [new_session new_pk now sid u]\<rparr>,
                      new_session new_pk now sid u, True))"
  using assms by_session_id_missing [OF assms]
  by (simp add: PresentationSession_get_or_create_def PresentationSession_create_def)

lemma presentation_view_cases:
  assumes "distinct (map session_id (sessions st))"
  shows "presentation_view uuid_default new_pk now st request =
     (let sid = (case QueryDict_get (GET request) ''session_id'' of
                   None \<Rightarrow> uuid_default | Some v \<Rightarrow> v)
      in if sid \<in> set (map session_id (sessions st)) then (st, Rendered sid (user request \<noteq> None))
         else if new_pk \<in> set (map sess_id (sessions st)) then (st, Unhandled IntegrityError)
         else (st\<lparr>sessions := sessions st @ [new_session new_pk now sid (user request)]\<rparr>,
               Rendered sid (user request \<noteq> None)))"
proof -
  define sid where "sid = (case QueryDict_get (GET request) ''session_id'' of
                   None \<Rightarrow> uuid_default | Some v \<Rightarrow> v)"
  show ?thesis
  proof (cases "sid \<in> set (map session_id (sessions st))")
    case True
    from get_or_create_found [OF assms True, of new_pk now "user request"]
    obtain p where "PresentationSession_get_or_create new_pk now st sid (user request) = Inr p"
      "fst p = st"
      by (cases "PresentationSession_get_or_create new_pk now st sid (user request)") auto
    with True show ?thesis
      by (cases p) (simp add: presentation_view_def Let_def sid_def [symmetric])
  next
    case False
    with get_or_create_missing [OF False, of new_pk now "user request"] show ?thesis
      by (simp add: presentation_view_def Let_def sid_def [symmetric])
  qed
qed

lemma store_ok_new_session:
  assumes "store_ok st" and "sid \<notin> set (map session_id (sessions st))"
    and "new_pk \<notin> set (map sess_id (sessions st))"
  shows "store_ok (st\<lparr>sessions := sessions st @ [new_session new_pk now sid u]\<rparr>)"
  using assms by (simp add: store_ok_def new_session_def)

lemma presentation_view_store_ok:
  assumes "store_ok st"
  shows "store_ok (fst (presentation_view uuid_default new_pk now st request))"
proof -
  from assms have u: "distinct (map session_id (sessions st))" by (simp add: store_ok_def)
  show ?thesis
    using assms store_ok_new_session [OF assms]
    by (simp add: presentation_view_cases [OF u] Let_def)
qed

lemma log_gesture_logs:
  "logs (fst (log_gesture py new_id now st request)) = logs st
   \<or> (\<exists>r. logs (fst (log_gesture py new_id now st request)) = logs st @ [r])"
proof (cases "body request")
  case (Parsed data)
  show ?thesis
  proof (cases data)
    case (JObj d)
    with Parsed have b: "body request = Parsed (JObj d)" by simp
    show ?thesis
    proof (cases "GestureLog_create py new_id now st (create_kwargs request d)")
      case (Inl e)
      then show ?thesis by (simp add: log_gesture_rejected [OF b])
    next
      case (Inr p)
      obtain st1 r where p: "p = (st1, r)" by (cases p)
      from Inr p GestureLog_create_Inr [of py new_id now st "create_kwargs request d" st1 r]
      have "st1 = st\<lparr>logs := logs st @ [r]\<rparr>" by simp
      with Inr p show ?thesis
        by (simp add: log_gesture_unfold [OF b] PresentationSession_save_def
            split: sum.splits if_splits)
    qed
  qed (simp_all add: log_gesture_def Parsed)
qed (simp_all add: log_gesture_def)

lemma presentation_view_logs:
  "logs (fst (presentation_view uuid_default new_pk now st request)) = logs st"
  by (auto simp: presentation_view_def PresentationSession_get_or_create_def
      PresentationSession_create_def Let_def split: sum.splits option.splits if_splits)

lemmas run_presentation_view =
  presentation_view_def PresentationSession_get_or_create_def PresentationSession_create_def
  PresentationSession_by_session_id_def QueryDict_get_def new_session_def Let_def
  sample_session_def sample_request_def

lemma lower_char_one: "lower_char c = CHR ''1'' \<longleftrightarrow> c = CHR ''1''"
proof
  assume h: "lower_char c = CHR ''1''"
  show "c = CHR ''1''"
  proof (cases "65 \<le> (of_char c :: nat) \<and> (of_char c :: nat) \<le> 90")
    case True
    then have "lower_char c = char_of ((of_char c :: nat) + 32)"
      by (simp add: lower_char_def)
    with h have "(of_char (char_of ((of_char c :: nat) + 32) :: char) :: nat) = of_char (CHR ''1'')"
      by simp
    moreover from True have "((of_char c :: nat) + 32) mod 256 = of_char c + 32"
      by simp
    ultimately have "(of_char c :: nat) + 32 = 49"
      by (simp add: of_char_of)
    with True show ?thesis by simp
  next
    case False
    with h show ?thesis by (simp add: lower_char_def)
  qed
next
  assume "c = CHR ''1''"
  then show "lower_char c = CHR ''1''" by (simp add: lower_char_def)
qed

lemma lower_one: "lower s = ''1'' \<longleftrightarrow> s = ''1''"
  by (cases s) (auto simp: lower_def lower_char_one)

section \<open>The claims\<close>

subsection \<open>The ingestion endpoint creates the documented row\<close>




subsection \<open>The ingestion endpoint counts the gesture in its session\<close>




subsection \<open>The statistics of a session\<close>




subsection \<open>Which operations change existing GestureLog rows\<close>

text \<open>
  C4 (as amended). The ingestion endpoint and the presentation page never update or
  delete an existing GestureLog row: the ingestion endpoint leaves the table as it is
  or appends exactly one row, and the presentation page leaves the table unchanged. The
  REST resource does remove rows: \<open>DELETE\<close> by an authenticated caller on the
  primary key of an existing row deletes that row.
\<close>

theorem views_keep_gesture_logs:
  "(logs (fst (log_gesture py new_id now st request)) = logs st
     \<or> (\<exists>r. logs (fst (log_gesture py new_id now st request)) = logs st @ [r]))
   \<and> logs (fst (presentation_view uuid_default new_pk now st request)) = logs st
   \<and> (user request \<noteq> None \<and> pk \<in> set (map log_id (logs st)) \<longrightarrow>
        GestureLogViewSet_destroy st request pk =
          (st\<lparr>logs := filter (\<lambda>l. log_id l \<noteq> pk) (logs st)\<rparr>, NoContent))"
  using log_gesture_logs [of py new_id now st request]
    presentation_view_logs [of uuid_default new_pk now st request]
  by (simp add: GestureLogViewSet_destroy_def queryset_def)

theorem views_keep_gesture_logs_witness:
  "logs (fst (log_gesture sample_builtins ''id1'' 30
      \<lparr>logs = [sample_log ''a'' ''s1'' ''fist'' 1 50], sessions = []\<rparr>
      (sample_request (Parsed (JObj [])) [])))
     = [sample_log ''a'' ''s1'' ''fist'' 1 50,
        \<lparr>log_id = ''id1'', log_user = None, log_session_id = ''anonymous'',
         gesture_type = ''unknown'', confidence = 0, frame_count = 1, hand_x = None,
         hand_y = None, hand_z = None, detection_time_ms = 0, frame_processing_time_ms = 0,
         browser = '''', user_agent = '''', screen_resolution = '''', created_at = 30\<rparr>]
   \<and> logs (fst (presentation_view ''u1'' ''k2'' 30
      \<lparr>logs = [sample_log ''a'' ''s1'' ''fist'' 1 50], sessions = []\<rparr>
      (sample_request (Parsed JNull) [])))
     = [sample_log ''a'' ''s1'' ''fist'' 1 50]
   \<and> GestureLogViewSet_destroy
      \<lparr>logs = [sample_log ''a'' ''s1'' ''fist'' 1 50, sample_log ''b'' ''s1'' ''ok'' 1 50],
       sessions = []\<rparr>
      \<lparr>body = Parsed JNull, user = Some 1, META = Map.empty, GET = []\<rparr> ''a''
     = (\<lparr>logs = [sample_log ''b'' ''s1'' ''ok'' 1 50], sessions = []\<rparr>, NoContent)"
  using views_keep_gesture_logs [of sample_builtins "''id1''" 30
      "\<lparr>logs = [sample_log ''a'' ''s1'' ''fist'' 1 50], sessions = []\<rparr>"
      "sample_request (Parsed (JObj [])) []" "''u1''" "''k2''" "''a''"]
    views_keep_gesture_logs [of sample_builtins "''id1''" 30
      "\<lparr>logs = [sample_log ''a'' ''s1'' ''fist'' 1 50, sample_log ''b'' ''s1'' ''ok'' 1 50],
        sessions = []\<rparr>"
      "\<lparr>body = Parsed JNull, user = Some 1, META = Map.empty, GET = []\<rparr>" "''u1''" "''k2''" "''a''"]
  by (simp add: run_log_gesture run_presentation_view sample_log_def
      GestureLogViewSet_destroy_def queryset_def)

text \<open>
  An authenticated \<open>DELETE\<close> for the only row of the table: the row is gone and the
  answer is 204.
\<close>

theorem views_keep_gesture_logs_counterexample:
  "logs (fst (GestureLogViewSet_destroy
      \<lparr>logs = [sample_log ''a'' ''s1'' ''fist'' 1 50], sessions = []\<rparr>
      \<lparr>body = Parsed JNull, user = Some 1, META = Map.empty, GET = []\<rparr> ''a'')) = []
   \<and> snd (GestureLogViewSet_destroy
      \<lparr>logs = [sample_log ''a'' ''s1'' ''fist'' 1 50], sessions = []\<rparr>
      \<lparr>body = Parsed JNull, user = Some 1, META = Map.empty, GET = []\<rparr> ''a'') = NoContent"
  by (simp add: GestureLogViewSet_destroy_def queryset_def sample_log_def)

subsection \<open>Bodies that are not JSON\<close>

text \<open>
  C5. On a body that \<open>json.loads\<close> rejects with \<open>JSONDecodeError\<close> the endpoint
  answers 400 with the fixed error payload and leaves the store unchanged. On a body
  whose bytes are not text the store is unchanged as well, but the answer is the generic
  500 carrying the \<open>UnicodeDecodeError\<close>, not 400.
\<close>

theorem log_gesture_unparseable_body:
  "log_gesture py new_id now st (request\<lparr>body := JSONDecodeError\<rparr>) = (st, InvalidJSON)
   \<and> status_code InvalidJSON = 400
   \<and> log_gesture py new_id now st (request\<lparr>body := NotText\<rparr>) = (st, ServerError UnicodeDecodeError)
   \<and> status_code (ServerError UnicodeDecodeError) = 500"
  by (simp add: log_gesture_def)

subsection \<open>The presentation page gets or creates its session\<close>

text \<open>
  C6. On a store that satisfies its uniqueness constraints, with a fresh primary key at
  hand for the first request: two requests for the presentation page that carry the
  same session_id parameter resolve to the same row, the second leaves the store as
  the first left it, that store has exactly one session with the session_id, and both
  pages are rendered with it; a request without the parameter, whose generated UUID is
  no session_id yet, appends a new session with that UUID; and the store after a
  request satisfies the uniqueness constraints again.
\<close>

theorem presentation_view_get_or_create:
  assumes "store_ok st" and "pk1 \<notin> set (map sess_id (sessions st))"
  shows "(QueryDict_get (GET request1) ''session_id'' = Some sid
          \<and> QueryDict_get (GET request2) ''session_id'' = Some sid \<longrightarrow>
            fst (presentation_view u2 pk2 t2 (fst (presentation_view u1 pk1 t1 st request1)) request2)
              = fst (presentation_view u1 pk1 t1 st request1)
            \<and> length (filter (\<lambda>s. session_id s = sid)
                 (sessions (fst (presentation_view u1 pk1 t1 st request1)))) = 1
            \<and> snd (presentation_view u1 pk1 t1 st request1) = Rendered sid (user request1 \<noteq> None)
            \<and> snd (presentation_view u2 pk2 t2 (fst (presentation_view u1 pk1 t1 st request1)) request2)
              = Rendered sid (user request2 \<noteq> None))
       \<and> (QueryDict_get (GET request1) ''session_id'' = None
          \<and> u1 \<notin> set (map session_id (sessions st)) \<longrightarrow>
            presentation_view u1 pk1 t1 st request1 =
              (st\<lparr>sessions := sessions st @ [new_session pk1 t1 u1 (user request1)]\<rparr>,
               Rendered u1 (user request1 \<noteq> None)))
       \<and> store_ok (fst (presentation_view u1 pk1 t1 st request1))"
proof -
  from assms(1) have u: "distinct (map session_id (sessions st))" by (simp add: store_ok_def)
  let ?st1 = "fst (presentation_view u1 pk1 t1 st request1)"
  have ok1: "store_ok ?st1" by (rule presentation_view_store_ok [OF assms(1)])
  then have u1: "distinct (map session_id (sessions ?st1))" by (simp add: store_ok_def)
  have same: "fst (presentation_view u2 pk2 t2 ?st1 request2) = ?st1
            \<and> length (filter (\<lambda>s. session_id s = sid) (sessions ?st1)) = 1
            \<and> snd (presentation_view u1 pk1 t1 st request1) = Rendered sid (user request1 \<noteq> None)
            \<and> snd (presentation_view u2 pk2 t2 ?st1 request2) = Rendered sid (user request2 \<noteq> None)"
    if q1: "QueryDict_get (GET request1) ''session_id'' = Some sid"
      and q2: "QueryDict_get (GET request2) ''session_id'' = Some sid"
  proof -
    have r1: "snd (presentation_view u1 pk1 t1 st request1) = Rendered sid (user request1 \<noteq> None)"
      and in1: "sid \<in> set (map session_id (sessions ?st1))"
      using assms(2) by (simp_all add: presentation_view_cases [OF u] q1 new_session_def)
    from in1 obtain s where s: "s \<in> set (sessions ?st1)" "session_id s = sid" by auto
    from filter_key_distinct [OF u1 s(1)] s(2)
    have one: "length (filter (\<lambda>s. session_id s = sid) (sessions ?st1)) = 1" by simp
    from in1 have "presentation_view u2 pk2 t2 ?st1 request2 = (?st1, Rendered sid (user request2 \<noteq> None))"
      by (simp add: presentation_view_cases [OF u1] q2)
    with r1 one show ?thesis by simp
  qed
  have fresh: "presentation_view u1 pk1 t1 st request1 =
              (st\<lparr>sessions := sessions st @ [new_session pk1 t1 u1 (user request1)]\<rparr>,
               Rendered u1 (user request1 \<noteq> None))"
    if "QueryDict_get (GET request1) ''session_id'' = None"
      and "u1 \<notin> set (map session_id (sessions st))"
    using that assms(2) by (simp add: presentation_view_cases [OF u])
  from same fresh ok1 show ?thesis by blast
qed

theorem presentation_view_get_or_create_witness:
  "presentation_view ''u1'' ''k2'' 30 \<lparr>logs = [], sessions = [sample_session ''k1'' ''s1'' 4]\<rparr>
      (sample_request (Parsed JNull) [(''session_id'', ''s9'')])
     = (\<lparr>logs = [], sessions = [sample_session ''k1'' ''s1'' 4, new_session ''k2'' 30 ''s9'' None]\<rparr>,
        Rendered ''s9'' False)
   \<and> presentation_view ''u2'' ''k3'' 40
      \<lparr>logs = [], sessions = [sample_session ''k1'' ''s1'' 4, new_session ''k2'' 30 ''s9'' None]\<rparr>
      (sample_request (Parsed JNull) [(''session_id'', ''s9'')])
     = (\<lparr>logs = [], sessions = [sample_session ''k1'' ''s1'' 4, new_session ''k2'' 30 ''s9'' None]\<rparr>,
        Rendered ''s9'' False)
   \<and> presentation_view ''u1'' ''k2'' 30 \<lparr>logs = [], sessions = [sample_session ''k1'' ''s1'' 4]\<rparr>
      (sample_request (Parsed JNull) [])
     = (\<lparr>logs = [], sessions = [sample_session ''k1'' ''s1'' 4, new_session ''k2'' 30 ''u1'' None]\<rparr>,
        Rendered ''u1'' False)"
proof -
  let ?st = "\<lparr>logs = [], sessions = [sample_session ''k1'' ''s1'' 4]\<rparr>"
  have ok: "store_ok ?st" by (simp add: store_ok_def)
  have pk: "''k2'' \<notin> set (map sess_id (sessions ?st))" by (simp add: sample_session_def)
  from presentation_view_get_or_create [OF ok pk,
      of "sample_request (Parsed JNull) [(''session_id'', ''s9'')]" "''s9''"
         "sample_request (Parsed JNull) [(''session_id'', ''s9'')]" "''u2''" "''k3''" 40 "''u1''" 30]
    presentation_view_get_or_create [OF ok pk,
      of "sample_request (Parsed JNull) []" "''s9''"
         "sample_request (Parsed JNull) []" "''u2''" "''k3''" 40 "''u1''" 30]
  show ?thesis
    by (simp add: run_presentation_view)
qed

subsection \<open>A body without session_id\<close>



subsection \<open>SystemPerformance.accuracy\<close>

text \<open>
  C8. For every SystemPerformance record, \<open>accuracy()\<close> returns
  TP / (TP + FP + FN); when that denominator is zero it returns 0 and the division is
  not performed, so \<open>ZeroDivisionError\<close> is never raised.
\<close>

theorem accuracy_total:
  "accuracy self =
     Inr (if true_positives self + false_positives self + false_negatives self = 0 then 0
          else real_of_int (true_positives self) /
               real_of_int (true_positives self + false_positives self + false_negatives self))
   \<and> accuracy self \<noteq> Inl ZeroDivisionError"
  by (simp add: accuracy_def py_truediv_def)

theorem accuracy_total_witness:
  "accuracy \<lparr>perf_id = ''p'', perf_session = ''s'', fps = 30, latency_ms = 80,
      cpu_usage = None, memory_usage_mb = None, false_positives = 1, false_negatives = 1,
      true_positives = 2, recorded_at = 0\<rparr> = Inr (1 / 2)
   \<and> accuracy \<lparr>perf_id = ''p'', perf_session = ''s'', fps = 30, latency_ms = 80,
      cpu_usage = None, memory_usage_mb = None, false_positives = 0, false_negatives = 0,
      true_positives = 0, recorded_at = 0\<rparr> = Inr 0"
  using accuracy_total [of "\<lparr>perf_id = ''p'', perf_session = ''s'', fps = 30, latency_ms = 80,
      cpu_usage = None, memory_usage_mb = None, false_positives = 1, false_negatives = 1,
      true_positives = 2, recorded_at = 0\<rparr>"]
    accuracy_total [of "\<lparr>perf_id = ''p'', perf_session = ''s'', fps = 30, latency_ms = 80,
      cpu_usage = None, memory_usage_mb = None, false_positives = 0, false_negatives = 0,
      true_positives = 0, recorded_at = 0\<rparr>"]
  by simp

subsection \<open>The serverless detection\<close>

text \<open>
  C9. The checks are decided in this order, the first positive one answering serverless:
  VERCEL equal to "1", AWS_LAMBDA_FUNCTION_NAME set, the base directory containing
  "/var/task" or "/var/runtime"; only when all three are negative is the file system
  probed. A probe in which any call raises answers serverless, a probe in which none
  raises answers writable.
\<close>

theorem is_serverless_environment_order:
  "fst (is_serverless_environment environ base_dir_str fs) =
     (if environ ''VERCEL'' = Some ''1'' then True
      else if environ ''AWS_LAMBDA_FUNCTION_NAME'' \<noteq> None then True
      else if sublist ''/var/task'' base_dir_str \<or> sublist ''/var/runtime'' base_dir_str then True
      else (fs OpenForWrite \<or> fs WriteTest \<or> fs CloseFile \<or> fs RemoveFile))
   \<and> (snd (is_serverless_environment environ base_dir_str fs) \<noteq> [] \<longleftrightarrow>
        environ ''VERCEL'' \<noteq> Some ''1'' \<and> environ ''AWS_LAMBDA_FUNCTION_NAME'' = None
        \<and> \<not> sublist ''/var/task'' base_dir_str \<and> \<not> sublist ''/var/runtime'' base_dir_str)"
proof -
  have v: "lower (get_or environ ''VERCEL'' '''') = ''1'' \<longleftrightarrow> environ ''VERCEL'' = Some ''1''"
    by (cases "environ ''VERCEL''") (simp_all add: get_or_def lower_one)
  show ?thesis
    unfolding is_serverless_environment_def v
    by (simp add: write_probe_def)
qed

theorem is_serverless_environment_order_witness:
  "is_serverless_environment (Map.empty(''VERCEL'' \<mapsto> ''1'')) ''/home/app'' (\<lambda>c. False) = (True, [])
   \<and> is_serverless_environment Map.empty ''/var/task/app'' (\<lambda>c. False) = (True, [])
   \<and> fst (is_serverless_environment Map.empty ''/home/app'' (\<lambda>c. c = RemoveFile))
   \<and> \<not> fst (is_serverless_environment Map.empty ''/home/app'' (\<lambda>c. False))
   \<and> snd (is_serverless_environment Map.empty ''/home/app'' (\<lambda>c. False)) \<noteq> []"
  using is_serverless_environment_order [of "Map.empty(''VERCEL'' \<mapsto> ''1'')" "''/home/app''" "\<lambda>c. False"]
    is_serverless_environment_order [of Map.empty "''/var/task/app''" "\<lambda>c. False"]
    is_serverless_environment_order [of Map.empty "''/home/app''" "\<lambda>c. c = RemoveFile"]
    is_serverless_environment_order [of Map.empty "''/home/app''" "\<lambda>c. False"]
  by (simp add: is_serverless_environment_def write_probe_def get_or_def lower_def
      lower_char_def sublist_code prefix_code split_pairs)

subsection \<open>session_stats without session_id\<close>

text \<open>
  C10 (as amended). A session_stats request of an authenticated caller without the
  session_id query parameter is answered with status 400 and the payload
  \<open>{"error": "session_id required"}\<close>; the answer does not depend on the store, so
  nothing is aggregated.
\<close>

theorem session_stats_requires_session_id:
  assumes "user request \<noteq> None"
    and "QueryDict_get (query_params request) ''session_id'' = None"
  shows "session_stats st request = BadRequest ''session_id required''
       \<and> stats_status (session_stats st request) = 400
       \<and> session_stats st request = session_stats st' request"
  using assms by (simp add: session_stats_def)

theorem session_stats_requires_session_id_witness:
  "session_stats \<lparr>logs = [sample_log ''a'' ''s1'' ''fist'' 1 50], sessions = []\<rparr>
      (sample_user_request (Parsed JNull) [(''other'', ''s1'')]) = BadRequest ''session_id required''
   \<and> stats_status (BadRequest ''session_id required'') = 400"
proof -
  have a: "user (sample_user_request (Parsed JNull) [(''other'', ''s1'')]) \<noteq> None"
    by (simp add: sample_user_request_def)
  have q: "QueryDict_get (query_params (sample_user_request (Parsed JNull) [(''other'', ''s1'')]))
             ''session_id'' = None"
    by (simp add: QueryDict_get_def query_params_def sample_user_request_def)
  from session_stats_requires_session_id [OF a q,
      of "\<lparr>logs = [sample_log ''a'' ''s1'' ''fist'' 1 50], sessions = []\<rparr>"]
  show ?thesis by simp
qed

text \<open>
  A request without the session_id parameter from a caller who is not authenticated:
  the permission check of the class answers 403, not 400.
\<close>

theorem session_stats_requires_session_id_counterexample:
  "session_stats \<lparr>logs = [sample_log ''a'' ''s1'' ''fist'' 1 50], sessions = []\<rparr>
      (sample_request (Parsed JNull) []) = NotAuthenticated
   \<and> stats_status NotAuthenticated = 403
   \<and> QueryDict_get (query_params (sample_request (Parsed JNull) [])) ''session_id'' = None"
  by (simp add: session_stats_def sample_request_def QueryDict_get_def query_params_def)

end
